theory Spec2Isabelle
  imports Complex_Main
begin

section \<open>The sensor simulator of main.go\<close>

text \<open>
  The program starts one goroutine per simulated sensor. Each goroutine picks a channel
  from the sensor's index, arms a \<^verbatim>\<open>time.Ticker\<close> and, on every tick, publishes one
  reading, rearms the ticker with a freshly drawn rate and looks at the shared context.

  Conventions of the embedding:
  \<^item> Go's \<^verbatim>\<open>int\<close> is \<^typ>\<open>int\<close>: the only integer operations are \<^verbatim>\<open>%\<close> and the
    counting loop \<^verbatim>\<open>i < numSensors; i++\<close>, neither of which can overflow.
  \<^item> A \<^verbatim>\<open>float64\<close> is the \<^typ>\<open>real\<close> number it denotes and float arithmetic is exact
    real arithmetic; NaN, the infinities and rounding to 53 bits are outside the model.
    The conversion to \<^verbatim>\<open>time.Duration\<close> (whole nanoseconds in an \<^verbatim>\<open>int64\<close>) is modelled
    exactly.
  \<^item> The draws of \<^verbatim>\<open>r.Float64()\<close>, the answers of the Redis client, the ticks of the
    ticker and the state of the context at each check are inputs supplied by the
    environment.
  \<^item> A run-time panic is a value of type \<open>panic\<close>.
\<close>

subsection \<open>Run-time panics\<close>

datatype panic =
    IndexOutOfRange int nat  \<comment> \<open>index out of range [i] with length n\<close>
  | DivideByZero  \<comment> \<open>integer divide by zero\<close>
  | NonPositiveInterval string  \<comment> \<open>\<^verbatim>\<open>time.NewTicker\<close> and \<^verbatim>\<open>Ticker.Reset\<close> with \<^verbatim>\<open>d <= 0\<close>\<close>

subsection \<open>Channel selection (line 27 and line 62)\<close>

definition channels :: "string list" where
  "channels = [''temperature'', ''pressure'', ''humidity'']"

text \<open>Go's \<^verbatim>\<open>a % b\<close> on integers: the remainder of the division truncated towards zero,
  so the result has the sign of \<open>a\<close>; a zero divisor panics.\<close>

definition go_rem :: "int \<Rightarrow> int \<Rightarrow> panic + int" where
  "go_rem a b = (if b = 0 then Inl DivideByZero else Inr (sgn a * (\<bar>a\<bar> mod \<bar>b\<bar>)))"

text \<open>Go's \<^verbatim>\<open>xs[i]\<close> on a slice: a bounds check, then the element.\<close>

definition go_index :: "'a list \<Rightarrow> int \<Rightarrow> panic + 'a" where
  "go_index xs i =
     (if 0 \<le> i \<and> i < int (length xs) then Inr (xs ! nat i)
      else Inl (IndexOutOfRange i (length xs)))"

text \<open>\<^verbatim>\<open>channel := channels[sensorID%len(channels)]\<close>\<close>

definition select_channel :: "int \<Rightarrow> panic + string" where
  "select_channel sensorID =
     (case go_rem sensorID (int (length channels)) of
        Inl p \<Rightarrow> Inl p
      | Inr idx \<Rightarrow> go_index channels idx)"

subsection \<open>The spawning loop (lines 98 to 104)\<close>

text \<open>\<^verbatim>\<open>for i := 0; i < numSensors; i++ { go publishSensorData(ctx, client, i, ...) }\<close>:
  the list of the indices handed to the goroutines, in the order of the loop.\<close>

function spawn_from :: "int \<Rightarrow> int \<Rightarrow> int list" where
  "spawn_from i numSensors =
     (if i < numSensors then i # spawn_from (i + 1) numSensors else [])"
  by pat_completeness auto
termination
  by (relation "measure (\<lambda>(i, n). nat (n - i))") auto

declare spawn_from.simps [simp del]

definition startSensorSimulations :: "int \<Rightarrow> int list" where
  "startSensorSimulations numSensors = spawn_from 0 numSensors"

subsection \<open>Formatting (the verbs of \<^verbatim>\<open>fmt.Sprintf\<close> that the program uses)\<close>

definition digit_char :: "nat \<Rightarrow> char" where
  "digit_char d = ''0123456789'' ! d"

text \<open>The decimal digits of a natural number, most significant first.\<close>

function dec_digits :: "nat \<Rightarrow> string" where
  "dec_digits n =
     (if n < 10 then [digit_char n] else dec_digits (n div 10) @ [digit_char (n mod 10)])"
  by pat_completeness auto
termination
  by (relation "measure (\<lambda>n. n)") auto

declare dec_digits.simps [simp del]

text \<open>\<^verbatim>\<open>%d\<close>: a minus sign for a negative number, then the digits.\<close>

definition fmt_d :: "int \<Rightarrow> string" where
  "fmt_d i = (if i < 0 then ''-'' else []) @ dec_digits (nat \<bar>i\<bar>)"

text \<open>\<^verbatim>\<open>%03d\<close>: minimum width 3, padded with zeros between the sign and the digits; a
  number that needs more than three characters is printed in full.\<close>

definition fmt_03d :: "int \<Rightarrow> string" where
  "fmt_03d i =
     (let sign = (if i < 0 then ''-'' else []); ds = dec_digits (nat \<bar>i\<bar>)
      in sign @ replicate (3 - length sign - length ds) (CHR ''0'') @ ds)"

text \<open>Rounding to the nearest integer, ties to the even one: the rounding of the decimal
  conversion behind \<^verbatim>\<open>%f\<close>.\<close>

definition round_half_even :: "real \<Rightarrow> int" where
  "round_half_even x =
     (let f = \<lfloor>x\<rfloor>; r = x - of_int f
      in if r < 1 / 2 then f else if 1 / 2 < r then f + 1 else if even f then f else f + 1)"

text \<open>\<^verbatim>\<open>%f\<close> (and \<^verbatim>\<open>%.6f\<close>): sign, integer part, a point and six decimals.\<close>

definition fmt_f :: "real \<Rightarrow> string" where
  "fmt_f v =
     (let n = nat (round_half_even (\<bar>v\<bar> * 1000000));
          frac = dec_digits (n mod 1000000)
      in (if v < 0 then ''-'' else []) @ dec_digits (n div 1000000) @ ''.''
         @ replicate (6 - length frac) (CHR ''0'') @ frac)"

subsection \<open>Readings (lines 47 to 59)\<close>

text \<open>\<open>u\<close> is the value of \<^verbatim>\<open>r.Float64()\<close>, a number in the half-open interval from 0 to
  1. The sensor index only seeds the generator.\<close>

definition generateSensorValue :: "real \<Rightarrow> int \<Rightarrow> string \<Rightarrow> real" where
  "generateSensorValue u sensorID channel =
     (if channel = ''temperature'' then 25 + u * 10
      else if channel = ''pressure'' then 8 / 10 + u * (4 / 10)
      else if channel = ''humidity'' then 70 + u * 20
      else u * 100)"

subsection \<open>Rates and tick durations (lines 68, 69 and 84 to 86)\<close>

definition draw_rate :: "real \<Rightarrow> real \<Rightarrow> real \<Rightarrow> real" where
  "draw_rate minRate maxRate u = minRate + u * (maxRate - minRate)"

text \<open>The conversion \<^verbatim>\<open>time.Duration(x)\<close> of a float to \<^verbatim>\<open>int64\<close> discards the fraction
  (truncation towards zero). When the value does not fit, Go leaves the result to the
  implementation: \<open>None\<close>.\<close>

definition to_duration :: "real \<Rightarrow> int option" where
  "to_duration x =
     (let n = (if 0 \<le> x then \<lfloor>x\<rfloor> else \<lceil>x\<rceil>)
      in if - (2 ^ 63) \<le> n \<and> n < 2 ^ 63 then Some n else None)"

text \<open>\<^verbatim>\<open>time.Duration(float64(time.Second) / rate)\<close>, in nanoseconds. A zero rate gives an
  infinite quotient, which no \<^verbatim>\<open>int64\<close> represents.\<close>

definition tick_duration :: "real \<Rightarrow> int option" where
  "tick_duration rate = (if rate = 0 then None else to_duration (1000000000 / rate))"

subsection \<open>The publishing loop (lines 61 to 96)\<close>

text \<open>What the environment supplies on one tick.\<close>

record tick =
  value_draw :: real  \<comment> \<open>\<^verbatim>\<open>r.Float64()\<close> inside \<^verbatim>\<open>generateSensorValue\<close>\<close>
  publish_err :: "string option"  \<comment> \<open>\<^verbatim>\<open>client.Publish(ctx, channel, message).Err()\<close>\<close>
  rate_draw :: real  \<comment> \<open>\<^verbatim>\<open>r.Float64()\<close> for the next rate\<close>
  ctx_done :: bool  \<comment> \<open>whether \<^verbatim>\<open>ctx.Done()\<close> is closed when the \<^verbatim>\<open>select\<close> runs\<close>

text \<open>What a goroutine does that is visible outside it.\<close>

datatype event =
    NewTicker int  \<comment> \<open>the ticker is created with this period (ns)\<close>
  | Publish string string  \<comment> \<open>channel and message handed to \<^verbatim>\<open>client.Publish\<close>\<close>
  | Log string
  | Reset int  \<comment> \<open>the ticker is rearmed with this period (ns)\<close>
  | TickerStop  \<comment> \<open>the deferred \<^verbatim>\<open>ticker.Stop()\<close>\<close>

datatype outcome =
    Running  \<comment> \<open>blocked on \<^verbatim>\<open>ticker.C\<close>, waiting for the next tick\<close>
  | Stopped  \<comment> \<open>returned from the loop\<close>
  | Panicked panic
  | ImplementationDependent  \<comment> \<open>a duration that \<^verbatim>\<open>int64\<close> cannot represent\<close>

text \<open>\<^verbatim>\<open>sensorName := fmt.Sprintf("%s:sensor_%03d", channel, sensorID)\<close>\<close>

definition sensorName :: "string \<Rightarrow> int \<Rightarrow> string" where
  "sensorName channel sensorID = channel @ '':sensor_'' @ fmt_03d sensorID"

definition log_line :: "string \<Rightarrow> string \<Rightarrow> string \<Rightarrow> string option \<Rightarrow> string" where
  "log_line name channel message err =
     (case err of
        Some e \<Rightarrow> ''Error publishing data for '' @ name @ '': '' @ e @ [CHR 0x0A]
      | None \<Rightarrow> ''Published data for '' @ name @ '' to channel '' @ channel
                 @ '': '' @ message @ [CHR 0x0A])"

text \<open>The first half of the loop body (lines 73 to 81): the reading, the message, the
  publish attempt and its log line.\<close>

definition publish_tick :: "string \<Rightarrow> string \<Rightarrow> int \<Rightarrow> tick \<Rightarrow> event list" where
  "publish_tick channel name sensorID t =
     (let v = generateSensorValue (value_draw t) sensorID channel;
          message = name @ ''='' @ fmt_f v
      in [Publish channel message, Log (log_line name channel message (publish_err t))])"

text \<open>\<^verbatim>\<open>for range ticker.C { ... }\<close> over the ticks that arrive. \<^verbatim>\<open>Ticker.Reset\<close> panics
  when its argument is not positive; the deferred \<^verbatim>\<open>ticker.Stop()\<close> runs on return and
  on panic.\<close>

fun ticker_loop ::
  "string \<Rightarrow> string \<Rightarrow> int \<Rightarrow> real \<Rightarrow> real \<Rightarrow> tick list \<Rightarrow> event list \<times> outcome" where
  "ticker_loop channel name sensorID minRate maxRate [] = ([], Running)"
| "ticker_loop channel name sensorID minRate maxRate (t # ts) =
     (let pub = publish_tick channel name sensorID t;
          rate = draw_rate minRate maxRate (rate_draw t)
      in case tick_duration rate of
           None \<Rightarrow> (pub, ImplementationDependent)
         | Some nextTickDuration \<Rightarrow>
             if nextTickDuration \<le> 0
             then (pub @ [TickerStop], Panicked (NonPositiveInterval ''Ticker.Reset''))
             else if ctx_done t
             then (pub @ [Reset nextTickDuration, TickerStop], Stopped)
             else (let (evs, out) = ticker_loop channel name sensorID minRate maxRate ts
                   in (pub @ Reset nextTickDuration # evs, out)))"

text \<open>\<open>u0\<close> is the draw for the initial rate; \<open>ticks\<close> are the ticks delivered to the
  goroutine so far.\<close>

definition publishSensorData ::
  "int \<Rightarrow> real \<Rightarrow> real \<Rightarrow> real \<Rightarrow> tick list \<Rightarrow> event list \<times> outcome" where
  "publishSensorData sensorID minRate maxRate u0 ticks =
     (case select_channel sensorID of
        Inl p \<Rightarrow> ([], Panicked p)
      | Inr channel \<Rightarrow>
          (let name = sensorName channel sensorID;
               rate = draw_rate minRate maxRate u0
           in case tick_duration rate of
                None \<Rightarrow> ([], ImplementationDependent)
              | Some d \<Rightarrow>
                  if d \<le> 0 then ([], Panicked (NonPositiveInterval ''NewTicker''))
                  else (let (evs, out) =
                              ticker_loop channel name sensorID minRate maxRate ticks
                        in (NewTicker d # evs, out))))"

definition publishes :: "event list \<Rightarrow> (string \<times> string) list" where
  "publishes evs = concat (map (\<lambda>e. case e of Publish c m \<Rightarrow> [(c, m)] | _ \<Rightarrow> []) evs)"

definition intervals :: "event list \<Rightarrow> int list" where
  "intervals evs =
     concat (map (\<lambda>e. case e of NewTicker d \<Rightarrow> [d] | Reset d \<Rightarrow> [d] | _ \<Rightarrow> []) evs)"

subsection \<open>The supervisor (lines 149 to 173)\<close>

text \<open>\<open>main\<close> from line 149 on, given the three parameters that flags and configuration
  file have resolved to. \<open>interrupted\<close> says whether the interrupt signal arrives.\<close>

datatype action =
    Print string  \<comment> \<open>a line of the log\<close>
  | Go int  \<comment> \<open>\<^verbatim>\<open>go publishSensorData(ctx, client, i, minRate, maxRate)\<close>\<close>
  | Cancel  \<comment> \<open>\<^verbatim>\<open>cancel()\<close>\<close>
  | Sleep int  \<comment> \<open>\<^verbatim>\<open>time.Sleep\<close>, in nanoseconds\<close>

datatype ending =
    Fatal  \<comment> \<open>\<^verbatim>\<open>log.Fatalf\<close>: the message is printed and the process exits with status 1\<close>
  | Waiting  \<comment> \<open>blocked on the signal channel\<close>
  | Returned

definition start_message :: "int \<Rightarrow> real \<Rightarrow> real \<Rightarrow> string" where
  "start_message numSensors minRate maxRate =
     ''Starting simulation with '' @ fmt_d numSensors
     @ '' sensors, publishing at rates between '' @ fmt_f minRate @ '' and ''
     @ fmt_f maxRate @ '' Hz'' @ [CHR 0x0A]"

definition main :: "int \<Rightarrow> real \<Rightarrow> real \<Rightarrow> bool \<Rightarrow> action list \<times> ending" where
  "main numSensors minRate maxRate interrupted =
     (if minRate \<le> 0 \<or> maxRate \<le> 0
      then ([Print ''Error: min-rate and max-rate must be greater than 0''], Fatal)
      else if minRate > maxRate
      then ([Print ''Error: min-rate cannot be greater than max-rate''], Fatal)
      else (let started = Print (start_message numSensors minRate maxRate)
                          # map Go (startSensorSimulations numSensors)
            in if \<not> interrupted then (started, Waiting)
               else (started @ [Print ''Shutting down simulator...'', Cancel,
                                Sleep 1000000000, Print ''Simulator stopped''], Returned)))"

definition spawned :: "action list \<Rightarrow> int list" where
  "spawned as = concat (map (\<lambda>a. case a of Go i \<Rightarrow> [i] | _ \<Rightarrow> []) as)"

text \<open>Every publish attempt of a run of the program: those of the goroutines that \<open>main\<close>
  started, each on the draws and ticks \<open>env\<close> gives it.\<close>

definition all_publishes ::
  "int \<Rightarrow> real \<Rightarrow> real \<Rightarrow> bool \<Rightarrow> (int \<Rightarrow> real \<times> tick list) \<Rightarrow> (string \<times> string) list" where
  "all_publishes numSensors minRate maxRate interrupted env =
     concat (map (\<lambda>i. publishes (fst (publishSensorData i minRate maxRate
                                         (fst (env i)) (snd (env i)))))
                 (spawned (fst (main numSensors minRate maxRate interrupted))))"

section \<open>Properties\<close>

subsection \<open>Channel selection\<close>

lemma spawn_from_upto: "spawn_from i n = [i..n - 1]"
proof (induction i n rule: spawn_from.induct)
  case (1 i n)
  show ?case
  proof (cases "i < n")
    case True
    then have "[i..n - 1] = i # [i + 1..n - 1]"
      by (simp add: upto_rec1)
    with True "1" show ?thesis
      by (simp add: spawn_from.simps [of i n])
  next
    case False
    then show ?thesis
      by (simp add: spawn_from.simps [of i n])
  qed
qed

lemma set_startSensorSimulations:
  "set (startSensorSimulations n) = {i. 0 \<le> i \<and> i < n}"
  by (auto simp: startSensorSimulations_def spawn_from_upto)

lemma select_channel_nonneg:
  "0 \<le> i \<Longrightarrow> select_channel i = Inr (channels ! nat (i mod 3))"
  by (simp add: select_channel_def go_rem_def go_index_def channels_def sgn_if)

lemma select_channel_neg:
  assumes "i < 0"
  shows "select_channel i =
     (if 3 dvd i then Inr ''temperature'' else Inl (IndexOutOfRange (- (\<bar>i\<bar> mod 3)) 3))"
proof (cases "3 dvd i")
  case True
  then have "\<bar>i\<bar> mod 3 = 0" by presburger
  with True show ?thesis
    by (simp add: select_channel_def go_rem_def go_index_def channels_def)
next
  case False
  then have "0 < \<bar>i\<bar> mod 3" by presburger
  with False assms show ?thesis
    by (simp add: select_channel_def go_rem_def go_index_def channels_def sgn_if)
qed

lemma ticker_loop_outcome:
  "snd (ticker_loop c n i a b ticks)
     \<in> {Running, Stopped, Panicked (NonPositiveInterval ''Ticker.Reset''),
        ImplementationDependent}"
  by (induction ticks) (auto simp: Let_def split: option.splits prod.splits)

lemma ticker_loop_panic:
  "ticker_loop c n i a b ticks = (evs, Panicked p) \<Longrightarrow> p = NonPositiveInterval ''Ticker.Reset''"
  using ticker_loop_outcome [of c n i a b ticks] by auto

lemma publishSensorData_panic:
  assumes "snd (publishSensorData i a b u0 ticks) = Panicked p" and "0 \<le> i"
  shows "p = NonPositiveInterval ''NewTicker'' \<or> p = NonPositiveInterval ''Ticker.Reset''"
  using assms
  by (auto simp: publishSensorData_def select_channel_nonneg Let_def
      split: option.splits prod.splits if_splits dest: ticker_loop_panic)

text \<open>
  \<^bold>\<open>C5.\<close> For every sensor index \<open>i \<ge> 0\<close> the channel of sensor \<open>i\<close> is entry \<open>i mod 3\<close> of
  the fixed list temperature, pressure, humidity. The selection is a function of the index
  alone: no draw of a random source enters it.
\<close>

theorem channel_by_index:
  assumes "0 \<le> i"
  shows "select_channel i = Inr ([''temperature'', ''pressure'', ''humidity''] ! nat (i mod 3))"
  using assms by (simp add: select_channel_nonneg channels_def)

theorem channel_by_index_witness:
  "(0::int) \<le> 4 \<and> select_channel 4 = Inr ''pressure'' \<and> select_channel 5 = Inr ''humidity''
   \<and> select_channel 6 = Inr ''temperature''"
  using channel_by_index [of 4] channel_by_index [of 5] channel_by_index [of 6]
  by simp

text \<open>
  \<^bold>\<open>C10\<close>, as stated, says that a negative index makes the channel lookup go out of
  bounds. Go's remainder of a negative multiple of 3 is 0, so index \<open>-3\<close> selects the first
  channel and nothing panics.
\<close>

theorem negative_index_counterexample:
  "(- 3 :: int) < 0 \<and> select_channel (- 3) = Inr ''temperature''"
  by (simp add: select_channel_def go_rem_def go_index_def channels_def)

text \<open>
  \<^bold>\<open>C10\<close>, amended. The spawning loop hands out exactly the indices from 0 to
  \<open>numSensors - 1\<close>. For every index \<open>i \<ge> 0\<close> the lookup is in bounds and
  \<open>publishSensorData\<close> does not panic on the channel selection. A negative index \<open>k\<close>
  makes the lookup panic exactly when \<open>k\<close> is not a multiple of 3 (the index computed is
  then \<open>-1\<close> or \<open>-2\<close>); a negative multiple of 3 selects the first channel.
\<close>

theorem channel_lookup_in_bounds:
  "set (startSensorSimulations numSensors) = {i. 0 \<le> i \<and> i < numSensors}
   \<and> (0 \<le> i \<longrightarrow>
        select_channel i = Inr (channels ! nat (i mod 3)) \<and> nat (i mod 3) < length channels
        \<and> snd (publishSensorData i minRate maxRate u0 ticks) \<noteq> Panicked DivideByZero
        \<and> snd (publishSensorData i minRate maxRate u0 ticks) \<noteq> Panicked (IndexOutOfRange j n))
   \<and> (k < 0 \<longrightarrow>
        (3 dvd k \<longrightarrow> select_channel k = Inr ''temperature'')
        \<and> (\<not> 3 dvd k \<longrightarrow>
             select_channel k = Inl (IndexOutOfRange (- (\<bar>k\<bar> mod 3)) 3)
             \<and> publishSensorData k minRate maxRate u0 ticks
                 = ([], Panicked (IndexOutOfRange (- (\<bar>k\<bar> mod 3)) 3))))"
proof -
  have "snd (publishSensorData i minRate maxRate u0 ticks) \<noteq> Panicked DivideByZero
        \<and> snd (publishSensorData i minRate maxRate u0 ticks) \<noteq> Panicked (IndexOutOfRange j n)"
    if "0 \<le> i"
    using that publishSensorData_panic [of i minRate maxRate u0 ticks] by auto
  moreover have "nat (i mod 3) < length channels" if "0 \<le> i"
    using that by (simp add: channels_def)
  moreover have "publishSensorData k minRate maxRate u0 ticks
                 = ([], Panicked (IndexOutOfRange (- (\<bar>k\<bar> mod 3)) 3))"
    if "k < 0" "\<not> 3 dvd k"
    using that by (simp add: publishSensorData_def select_channel_neg)
  ultimately show ?thesis
    by (simp add: set_startSensorSimulations select_channel_nonneg select_channel_neg)
qed

theorem channel_lookup_in_bounds_witness:
  "set (startSensorSimulations 2) = {i. 0 \<le> i \<and> i < 2}
   \<and> select_channel 4 = Inr ''pressure''
   \<and> select_channel (- 6) = Inr ''temperature''
   \<and> select_channel (- 4) = Inl (IndexOutOfRange (- 1) 3)
   \<and> publishSensorData (- 4) 4 4 0 [] = ([], Panicked (IndexOutOfRange (- 1) 3))"
  using channel_lookup_in_bounds [of 2 4 4 4 0 "[]" 0 0 "- 6"]
    channel_lookup_in_bounds [of 2 4 4 4 0 "[]" 0 0 "- 4"]
  by (simp add: channels_def)

subsection \<open>The supervisor\<close>

lemma spawned_simps [simp]:
  "spawned [] = []"
  "spawned (Print s # as) = spawned as"
  "spawned (Go i # as) = i # spawned as"
  "spawned (Cancel # as) = spawned as"
  "spawned (Sleep d # as) = spawned as"
  by (simp_all add: spawned_def)

lemma spawned_map_Go: "spawned (map Go xs) = xs"
  by (induction xs) simp_all

lemma spawned_append: "spawned (xs @ ys) = spawned xs @ spawned ys"
  by (simp add: spawned_def)

lemma startSensorSimulations_nonpos: "n \<le> 0 \<Longrightarrow> startSensorSimulations n = []"
  by (simp add: startSensorSimulations_def spawn_from.simps [of 0 n])

lemma spawned_main:
  "spawned (fst (main n a b intr)) =
     (if a \<le> 0 \<or> b \<le> 0 \<or> a > b then [] else startSensorSimulations n)"
  by (simp add: main_def Let_def spawned_append spawned_map_Go)

lemma all_publishes_none:
  "spawned (fst (main n a b intr)) = [] \<Longrightarrow> all_publishes n a b intr env = []"
  by (simp add: all_publishes_def)

text \<open>
  \<^bold>\<open>C2.\<close> If \<open>minRate \<le> 0\<close>, or \<open>maxRate \<le> 0\<close>, or \<open>minRate > maxRate\<close>, the program
  prints one message, which names a constraint that the rates violate, and exits through
  \<^verbatim>\<open>log.Fatalf\<close>. No goroutine has been started and nothing is published.
\<close>

theorem invalid_rates_fatal:
  assumes "minRate \<le> 0 \<or> maxRate \<le> 0 \<or> minRate > maxRate"
  shows "main numSensors minRate maxRate interrupted =
           ([Print (if minRate \<le> 0 \<or> maxRate \<le> 0
                    then ''Error: min-rate and max-rate must be greater than 0''
                    else ''Error: min-rate cannot be greater than max-rate'')], Fatal)
         \<and> spawned (fst (main numSensors minRate maxRate interrupted)) = []
         \<and> all_publishes numSensors minRate maxRate interrupted env = []"
proof -
  have none: "spawned (fst (main numSensors minRate maxRate interrupted)) = []"
    using assms by (auto simp: spawned_main)
  have "main numSensors minRate maxRate interrupted =
           ([Print (if minRate \<le> 0 \<or> maxRate \<le> 0
                    then ''Error: min-rate and max-rate must be greater than 0''
                    else ''Error: min-rate cannot be greater than max-rate'')], Fatal)"
    using assms by (auto simp: main_def)
  with none all_publishes_none [OF none] show ?thesis
    by blast
qed

theorem invalid_rates_fatal_witness:
  "main 1000 0 4 True = ([Print ''Error: min-rate and max-rate must be greater than 0''], Fatal)
   \<and> main 1000 5 4 True = ([Print ''Error: min-rate cannot be greater than max-rate''], Fatal)
   \<and> all_publishes 1000 0 4 True (\<lambda>i. (0, [])) = []"
  using invalid_rates_fatal [of 0 4 1000 True "\<lambda>i. (0, [])"]
    invalid_rates_fatal [of 5 4 1000 True "\<lambda>i. (0, [])"]
  by simp

text \<open>
  \<^bold>\<open>C3\<close>, as stated, says that a negative sensor count is a fatal configuration error.
  The program validates the two rates only: with \<open>-1\<close> sensors and rates of 4 Hz it prints
  its start message and waits for the interrupt; after the interrupt it shuts down and
  returns normally.
\<close>

theorem negative_count_counterexample:
  "(- 1 :: int) < 0
   \<and> main (- 1) 4 4 False = ([Print (start_message (- 1) 4 4)], Waiting)
   \<and> snd (main (- 1) 4 4 True) = Returned"
  by (simp add: main_def startSensorSimulations_nonpos)

text \<open>
  \<^bold>\<open>C3\<close>, amended. A negative sensor count is not rejected. It starts no goroutine and
  nothing is published; when the rates are valid the program does not end fatally: it
  prints the start message with the negative count and then behaves as with a count of 0,
  waiting for the interrupt and returning after the shutdown sequence.
\<close>

theorem negative_count_not_rejected:
  assumes "numSensors < 0"
  shows "spawned (fst (main numSensors minRate maxRate interrupted)) = []
         \<and> all_publishes numSensors minRate maxRate interrupted env = []
         \<and> (0 < minRate \<and> minRate \<le> maxRate \<longrightarrow>
              snd (main numSensors minRate maxRate interrupted) \<noteq> Fatal
              \<and> main numSensors minRate maxRate False
                  = ([Print (start_message numSensors minRate maxRate)], Waiting)
              \<and> main numSensors minRate maxRate True
                  = ([Print (start_message numSensors minRate maxRate),
                      Print ''Shutting down simulator...'', Cancel, Sleep 1000000000,
                      Print ''Simulator stopped''], Returned)
              \<and> tl (fst (main numSensors minRate maxRate interrupted))
                  = tl (fst (main 0 minRate maxRate interrupted)))"
proof -
  have none: "spawned (fst (main numSensors minRate maxRate interrupted)) = []"
    using assms by (simp add: spawned_main startSensorSimulations_nonpos)
  have "snd (main numSensors minRate maxRate interrupted) \<noteq> Fatal
        \<and> main numSensors minRate maxRate False
            = ([Print (start_message numSensors minRate maxRate)], Waiting)
        \<and> main numSensors minRate maxRate True
            = ([Print (start_message numSensors minRate maxRate),
                Print ''Shutting down simulator...'', Cancel, Sleep 1000000000,
                Print ''Simulator stopped''], Returned)
        \<and> tl (fst (main numSensors minRate maxRate interrupted))
            = tl (fst (main 0 minRate maxRate interrupted))"
    if "0 < minRate" "minRate \<le> maxRate"
    using that assms by (simp add: main_def startSensorSimulations_nonpos Let_def)
  with none all_publishes_none [OF none] show ?thesis
    by blast
qed

theorem negative_count_not_rejected_witness:
  "(- 5 :: int) < 0 \<and> (0::real) < 4 \<and> (4::real) \<le> 5
   \<and> snd (main (- 5) 4 5 True) \<noteq> Fatal
   \<and> main (- 5) 4 5 False = ([Print (start_message (- 5) 4 5)], Waiting)
   \<and> all_publishes (- 5) 4 5 True (\<lambda>i. (0, [])) = []"
  using negative_count_not_rejected [of "- 5" 4 5 True "\<lambda>i. (0, [])"]
  by simp

text \<open>
  \<^bold>\<open>C9.\<close> With a sensor count of 0 (and rates that pass the validation) the program
  starts: it prints the start message, starts no goroutine and waits for the interrupt.
  Nothing is published. When the interrupt arrives it cancels the context, sleeps for the
  grace period of one second, which is its only delay, and returns.
\<close>

theorem zero_sensors_clean_run:
  assumes "0 < minRate" and "minRate \<le> maxRate"
  shows "main 0 minRate maxRate False = ([Print (start_message 0 minRate maxRate)], Waiting)
         \<and> main 0 minRate maxRate True
             = ([Print (start_message 0 minRate maxRate), Print ''Shutting down simulator...'',
                 Cancel, Sleep 1000000000, Print ''Simulator stopped''], Returned)
         \<and> spawned (fst (main 0 minRate maxRate interrupted)) = []
         \<and> all_publishes 0 minRate maxRate interrupted env = []"
proof -
  have none: "spawned (fst (main 0 minRate maxRate interrupted)) = []"
    by (simp add: spawned_main startSensorSimulations_nonpos)
  have "main 0 minRate maxRate False = ([Print (start_message 0 minRate maxRate)], Waiting)
        \<and> main 0 minRate maxRate True
            = ([Print (start_message 0 minRate maxRate), Print ''Shutting down simulator...'',
                Cancel, Sleep 1000000000, Print ''Simulator stopped''], Returned)"
    using assms by (simp add: main_def startSensorSimulations_nonpos)
  with none all_publishes_none [OF none] show ?thesis
    by blast
qed

theorem zero_sensors_clean_run_witness:
  "(0::real) < 4 \<and> (4::real) \<le> 4
   \<and> main 0 4 4 True
       = ([Print (start_message 0 4 4), Print ''Shutting down simulator...'',
           Cancel, Sleep 1000000000, Print ''Simulator stopped''], Returned)
   \<and> all_publishes 0 4 4 True (\<lambda>i. (0, [])) = []"
  using zero_sensors_clean_run [of 4 4 True "\<lambda>i. (0, [])"]
  by simp

subsection \<open>Readings\<close>

text \<open>
  \<^bold>\<open>C6.\<close> For a draw \<open>u\<close> with \<open>0 \<le> u < 1\<close> the reading lies in the range of its kind:
  temperature between 25 and 35, pressure between 0.8 and 1.2, humidity between 70 and 90,
  and any other kind between 0 and 100.
\<close>

theorem reading_in_range:
  assumes "0 \<le> u" and "u < 1"
  shows "(channel = ''temperature'' \<longrightarrow>
            25 \<le> generateSensorValue u sensorID channel
            \<and> generateSensorValue u sensorID channel \<le> 35)
         \<and> (channel = ''pressure'' \<longrightarrow>
            8 / 10 \<le> generateSensorValue u sensorID channel
            \<and> generateSensorValue u sensorID channel \<le> 12 / 10)
         \<and> (channel = ''humidity'' \<longrightarrow>
            70 \<le> generateSensorValue u sensorID channel
            \<and> generateSensorValue u sensorID channel \<le> 90)
         \<and> (channel \<notin> set channels \<longrightarrow>
            0 \<le> generateSensorValue u sensorID channel
            \<and> generateSensorValue u sensorID channel \<le> 100)"
  using assms by (simp add: generateSensorValue_def channels_def)

theorem reading_in_range_witness:
  "(0::real) \<le> 1 / 2 \<and> (1 / 2 :: real) < 1
   \<and> generateSensorValue (1 / 2) 0 ''temperature'' = 30
   \<and> generateSensorValue (1 / 2) 1 ''pressure'' = 1
   \<and> generateSensorValue (1 / 2) 2 ''humidity'' = 80
   \<and> ''wind'' \<notin> set channels \<and> generateSensorValue (1 / 2) 3 ''wind'' = 50"
  using reading_in_range [of "1 / 2" "''temperature''" 0]
    reading_in_range [of "1 / 2" "''pressure''" 1]
    reading_in_range [of "1 / 2" "''humidity''" 2]
    reading_in_range [of "1 / 2" "''wind''" 3]
  by (simp add: generateSensorValue_def channels_def)

subsection \<open>Rates and intervals\<close>




lemma intervals_simps [simp]:
  "intervals [] = []"
  "intervals (NewTicker d # evs) = d # intervals evs"
  "intervals (Publish c m # evs) = intervals evs"
  "intervals (Log l # evs) = intervals evs"
  "intervals (Reset d # evs) = d # intervals evs"
  "intervals (TickerStop # evs) = intervals evs"
  by (simp_all add: intervals_def)


lemma intervals_publish_tick [simp]: "intervals (publish_tick c n i t) = []"
  by (simp add: publish_tick_def Let_def)


lemma publishSensorData_started:
  assumes "select_channel i = Inr c" and "tick_duration (draw_rate a b u0) = Some d" and "0 < d"
  shows "publishSensorData i a b u0 ticks =
           (NewTicker d # fst (ticker_loop c (sensorName c i) i a b ticks),
            snd (ticker_loop c (sensorName c i) i a b ticks))"
  using assms by (simp add: publishSensorData_def Let_def split: prod.splits)

lemma publishSensorData_cases:
  "fst (publishSensorData i a b u0 ticks) = [] \<and> snd (publishSensorData i a b u0 ticks) \<noteq> Running
     \<and> snd (publishSensorData i a b u0 ticks) \<noteq> Stopped
   \<or> (\<exists>c d. select_channel i = Inr c \<and> tick_duration (draw_rate a b u0) = Some d \<and> 0 < d)"
  by (cases "select_channel i"; cases "tick_duration (draw_rate a b u0)")
    (auto simp: publishSensorData_def Let_def split: prod.splits)





subsection \<open>Messages\<close>










lemma publishes_simps [simp]:
  "publishes [] = []"
  "publishes (NewTicker d # evs) = publishes evs"
  "publishes (Publish c m # evs) = (c, m) # publishes evs"
  "publishes (Log l # evs) = publishes evs"
  "publishes (Reset d # evs) = publishes evs"
  "publishes (TickerStop # evs) = publishes evs"
  by (simp_all add: publishes_def)

lemma publishes_append: "publishes (xs @ ys) = publishes xs @ publishes ys"
  by (simp add: publishes_def)

lemma publishes_publish_tick:
  "publishes (publish_tick c n i t) = [(c, n @ ''='' @ fmt_f (generateSensorValue (value_draw t) i c))]"
  by (simp add: publish_tick_def Let_def)




subsection \<open>The life of a publisher\<close>

lemma ticker_loop_append:
  "ticker_loop c n i a b (pre @ post) =
     (if snd (ticker_loop c n i a b pre) = Running
      then (fst (ticker_loop c n i a b pre) @ fst (ticker_loop c n i a b post),
            snd (ticker_loop c n i a b post))
      else ticker_loop c n i a b pre)"
  by (induction pre) (auto simp: Let_def split: option.splits prod.splits)


lemma ticker_loop_Running:
  "snd (ticker_loop c n i a b ticks) = Running \<Longrightarrow>
     (\<forall>t \<in> set ticks. \<not> ctx_done t)
     \<and> length (publishes (fst (ticker_loop c n i a b ticks))) = length ticks"
  by (induction ticks)
    (auto simp: Let_def publishes_append publishes_publish_tick
      split: option.splits prod.splits if_splits)

lemma ticker_loop_single:
  assumes "tick_duration (draw_rate a b (rate_draw t)) = Some d" and "0 < d"
  shows "ticker_loop c n i a b (t # post) =
           (if ctx_done t then (publish_tick c n i t @ [Reset d, TickerStop], Stopped)
            else (publish_tick c n i t @ Reset d # fst (ticker_loop c n i a b post),
                  snd (ticker_loop c n i a b post)))"
  using assms by (simp add: Let_def split: prod.splits)

lemma publishSensorData_append:
  assumes "snd (publishSensorData i a b u0 pre) = Running"
  shows "\<exists>c. select_channel i = Inr c
           \<and> snd (ticker_loop c (sensorName c i) i a b pre) = Running
           \<and> (\<forall>post. publishSensorData i a b u0 (pre @ post) =
               (fst (publishSensorData i a b u0 pre)
                  @ fst (ticker_loop c (sensorName c i) i a b post),
                snd (ticker_loop c (sensorName c i) i a b post)))"
proof -
  from assms publishSensorData_cases [of i a b u0 pre] obtain c d where
    start: "select_channel i = Inr c" "tick_duration (draw_rate a b u0) = Some d" "0 < d"
    by blast
  from assms have "snd (ticker_loop c (sensorName c i) i a b pre) = Running"
    by (simp add: publishSensorData_started [OF start])
  then show ?thesis
    using start(1) by (simp add: publishSensorData_started [OF start] ticker_loop_append)
qed

lemma publishSensorData_terminal:
  assumes "snd (publishSensorData i a b u0 ticks) \<noteq> Running"
  shows "publishSensorData i a b u0 (ticks @ later) = publishSensorData i a b u0 ticks"
proof (cases "\<exists>c d. select_channel i = Inr c \<and> tick_duration (draw_rate a b u0) = Some d \<and> 0 < d")
  case True
  then obtain c d where
    start: "select_channel i = Inr c" "tick_duration (draw_rate a b u0) = Some d" "0 < d"
    by blast
  from assms have "snd (ticker_loop c (sensorName c i) i a b ticks) \<noteq> Running"
    by (simp add: publishSensorData_started [OF start])
  then show ?thesis
    by (simp add: publishSensorData_started [OF start] ticker_loop_append)
next
  case False
  then show ?thesis
    by (cases "select_channel i"; cases "tick_duration (draw_rate a b u0)")
      (auto simp: publishSensorData_def Let_def)
qed


lemma publishSensorData_Running:
  assumes "snd (publishSensorData i a b u0 ticks) = Running"
  shows "(\<forall>t \<in> set ticks. \<not> ctx_done t)
         \<and> length (publishes (fst (publishSensorData i a b u0 ticks))) = length ticks"
proof -
  from assms publishSensorData_cases [of i a b u0 ticks] obtain c d where
    start: "select_channel i = Inr c" "tick_duration (draw_rate a b u0) = Some d" "0 < d"
    by blast
  from assms have "snd (ticker_loop c (sensorName c i) i a b ticks) = Running"
    by (simp add: publishSensorData_started [OF start])
  from ticker_loop_Running [OF this] show ?thesis
    by (simp add: publishSensorData_started [OF start])
qed

text \<open>
  \<^bold>\<open>C1.\<close> Take a publisher that is still running after the ticks \<open>pre\<close>, and a next tick
  \<open>t\<close> at whose end the \<^verbatim>\<open>select\<close> finds the context cancelled (the ticker has been
  rearmed, so the \<^verbatim>\<open>select\<close> is reached). Then the publish of tick \<open>t\<close> has been made,
  the goroutine returns, and whatever ticks follow are not processed: the run is the same
  with and without them. In general, once a run has ended in \<open>Stopped\<close>, further ticks add
  no event, so nothing is published after that.
\<close>

theorem cancellation_stops_publisher:
  assumes "snd (publishSensorData sensorID minRate maxRate u0 pre) = Running"
    and "ctx_done t"
    and "tick_duration (draw_rate minRate maxRate (rate_draw t)) = Some d \<and> 0 < d"
  shows "(\<exists>c. select_channel sensorID = Inr c
            \<and> publishSensorData sensorID minRate maxRate u0 (pre @ t # post) =
                (fst (publishSensorData sensorID minRate maxRate u0 pre)
                   @ publish_tick c (sensorName c sensorID) sensorID t @ [Reset d, TickerStop],
                 Stopped))
         \<and> publishSensorData sensorID minRate maxRate u0 (pre @ t # post)
             = publishSensorData sensorID minRate maxRate u0 (pre @ [t])
         \<and> length (publishes (fst (publishSensorData sensorID minRate maxRate u0 (pre @ t # post))))
             = length pre + 1
         \<and> (snd (publishSensorData sensorID minRate maxRate u0 ticks) = Stopped \<longrightarrow>
              publishSensorData sensorID minRate maxRate u0 (ticks @ later)
                = publishSensorData sensorID minRate maxRate u0 ticks)"
proof -
  from assms(3) have d: "tick_duration (draw_rate minRate maxRate (rate_draw t)) = Some d" "0 < d"
    by simp_all
  have run: "\<exists>c. select_channel sensorID = Inr c
            \<and> publishSensorData sensorID minRate maxRate u0 (pre @ t # rest) =
                (fst (publishSensorData sensorID minRate maxRate u0 pre)
                   @ publish_tick c (sensorName c sensorID) sensorID t @ [Reset d, TickerStop],
                 Stopped)" for rest
    using publishSensorData_append [OF assms(1)] assms(2)
    by (auto simp add: ticker_loop_single [OF d] simp del: ticker_loop.simps)
  from run [of post] run [of "[]"]
  have same: "publishSensorData sensorID minRate maxRate u0 (pre @ t # post)
                = publishSensorData sensorID minRate maxRate u0 (pre @ [t])"
    by auto
  have "length (publishes (fst (publishSensorData sensorID minRate maxRate u0 pre))) = length pre"
    using publishSensorData_Running [OF assms(1)] by simp
  with run [of post]
  have count: "length (publishes (fst (publishSensorData sensorID minRate maxRate u0
                  (pre @ t # post)))) = length pre + 1"
    by (auto simp: publishes_append publishes_publish_tick)
  have "publishSensorData sensorID minRate maxRate u0 (ticks @ later)
          = publishSensorData sensorID minRate maxRate u0 ticks"
    if "snd (publishSensorData sensorID minRate maxRate u0 ticks) = Stopped"
    using that by (intro publishSensorData_terminal) simp
  with run [of post] same count show ?thesis
    by blast
qed

theorem cancellation_stops_publisher_witness:
  "snd (publishSensorData 1 4 5 (1 / 2)
          [\<lparr>value_draw = 1 / 4, publish_err = None, rate_draw = 1 / 3, ctx_done = False\<rparr>])
     = Running
   \<and> tick_duration (draw_rate 4 5 (1 / 3)) = Some 230769230
   \<and> snd (publishSensorData 1 4 5 (1 / 2)
          [\<lparr>value_draw = 1 / 4, publish_err = None, rate_draw = 1 / 3, ctx_done = False\<rparr>,
           \<lparr>value_draw = 3 / 4, publish_err = None, rate_draw = 1 / 3, ctx_done = True\<rparr>])
     = Stopped
   \<and> publishSensorData 1 4 5 (1 / 2)
          [\<lparr>value_draw = 1 / 4, publish_err = None, rate_draw = 1 / 3, ctx_done = False\<rparr>,
           \<lparr>value_draw = 3 / 4, publish_err = None, rate_draw = 1 / 3, ctx_done = True\<rparr>,
           \<lparr>value_draw = 1 / 2, publish_err = None, rate_draw = 2 / 3, ctx_done = True\<rparr>]
     = publishSensorData 1 4 5 (1 / 2)
          [\<lparr>value_draw = 1 / 4, publish_err = None, rate_draw = 1 / 3, ctx_done = False\<rparr>,
           \<lparr>value_draw = 3 / 4, publish_err = None, rate_draw = 1 / 3, ctx_done = True\<rparr>]
   \<and> length (publishes (fst (publishSensorData 1 4 5 (1 / 2)
          [\<lparr>value_draw = 1 / 4, publish_err = None, rate_draw = 1 / 3, ctx_done = False\<rparr>,
           \<lparr>value_draw = 3 / 4, publish_err = None, rate_draw = 1 / 3, ctx_done = True\<rparr>,
           \<lparr>value_draw = 1 / 2, publish_err = None, rate_draw = 2 / 3, ctx_done = True\<rparr>])))
     = 2"
  using cancellation_stops_publisher [of 1 4 5 "1 / 2"
      "[\<lparr>value_draw = 1 / 4, publish_err = None, rate_draw = 1 / 3, ctx_done = False\<rparr>]"
      "\<lparr>value_draw = 3 / 4, publish_err = None, rate_draw = 1 / 3, ctx_done = True\<rparr>"
      230769230
      "[\<lparr>value_draw = 1 / 2, publish_err = None, rate_draw = 2 / 3, ctx_done = True\<rparr>]"
      "[\<lparr>value_draw = 1 / 4, publish_err = None, rate_draw = 1 / 3, ctx_done = False\<rparr>,
        \<lparr>value_draw = 3 / 4, publish_err = None, rate_draw = 1 / 3, ctx_done = True\<rparr>]"
      "[\<lparr>value_draw = 1 / 2, publish_err = None, rate_draw = 2 / 3, ctx_done = True\<rparr>]"]
  by (simp add: publishSensorData_def select_channel_def go_rem_def go_index_def channels_def
      draw_rate_def tick_duration_def to_duration_def publishes_append publishes_publish_tick)




end
